theory Spec2Isabelle
  imports Main "HOL-Library.Product_Lexorder" "HOL-Library.Log_Nat" "HOL-Library.Multiset"
begin

section \<open>Insurance policy optimizer: the recommendation core\<close>

text \<open>
  The development embeds the functions of \<^verbatim>\<open>utils.py\<close> and \<^verbatim>\<open>agent.py\<close> that the
  specification calls the core: input validation, the risk scorer, the enhanced
  recommendation pipeline and the premium estimator.

  Strings are byte strings; the keywords the code looks for are ASCII, and lower-casing
  and trimming are modelled on ASCII text.
\<close>

subsection \<open>Python string operations\<close>

definition lower_char :: "char \<Rightarrow> char" where
  "lower_char c =
     (let n = (of_char c :: nat) in
      if 65 \<le> n \<and> n \<le> 90
      then Char (digit0 c) (digit1 c) (digit2 c) (digit3 c) (digit4 c) True (digit6 c) (digit7 c)
      else c)"

definition lower :: "string \<Rightarrow> string" where
  "lower s = map lower_char s"



fun startswith :: "string \<Rightarrow> string \<Rightarrow> bool" where
  "startswith s [] = True"
| "startswith [] (k # ks) = False"
| "startswith (c # cs) (k # ks) = (c = k \<and> startswith cs ks)"

text \<open>\<^verbatim>\<open>k in s\<close> on strings: \<open>k\<close> occurs in \<open>s\<close> as a contiguous substring.\<close>

fun str_in :: "string \<Rightarrow> string \<Rightarrow> bool" where
  "str_in k [] = (k = [])"
| "str_in k (c # cs) = (startswith (c # cs) k \<or> str_in k cs)"

subsection \<open>The catalog\<close>

text \<open>A row of \<^verbatim>\<open>cleaned_insurance_data.csv\<close>, with the columns the pipeline reads.\<close>

record policy =
  Policy_Type :: string
  Coverage_Lakhs :: int
  Premium_INR :: int
  Age :: int

type_synonym dataframe = "policy list"

definition isin :: "string \<Rightarrow> string list \<Rightarrow> bool" where
  "isin t ts = (t \<in> set ts)"

subsection \<open>The filter stages of \<^verbatim>\<open>get_policy_recommendations_enhanced\<close>\<close>

text \<open>Lines 76 to 85: the age window and the coverage floor in one mask; the fallback
  keeps only the coverage floor.\<close>

definition age_coverage_filter :: "dataframe \<Rightarrow> int \<Rightarrow> dataframe" where
  "age_coverage_filter df age =
     (let age_filtered =
            filter (\<lambda>r. Age r \<ge> age - 10 \<and> Age r \<le> age + 10 \<and> Coverage_Lakhs r \<ge> 10) df
      in if age_filtered = [] then filter (\<lambda>r. Coverage_Lakhs r \<ge> 10) df
         else age_filtered)"

text \<open>Lines 87 to 90.\<close>

definition health_filter :: "string \<Rightarrow> dataframe \<Rightarrow> dataframe" where
  "health_filter health age_filtered =
     (if lower health = ''poor''
      then filter (\<lambda>r. isin (Policy_Type r) [''Health'', ''Comprehensive'']) age_filtered
      else age_filtered)"

text \<open>Lines 92 to 101.\<close>

definition goal_filter :: "string \<Rightarrow> dataframe \<Rightarrow> dataframe" where
  "goal_filter goal age_filtered =
     (let goal_lower = lower goal in
      if str_in ''family'' goal_lower \<or> str_in ''dependent'' goal_lower
      then filter (\<lambda>r. Coverage_Lakhs r \<ge> 15) age_filtered
      else if str_in ''critical'' goal_lower \<or> str_in ''serious'' goal_lower
      then filter (\<lambda>r. isin (Policy_Type r) [''Health'', ''Comprehensive'']) age_filtered
      else if str_in ''save'' goal_lower \<or> str_in ''investment'' goal_lower
      then filter (\<lambda>r. isin (Policy_Type r) [''Term Life'', ''Comprehensive'']) age_filtered
      else age_filtered)"

text \<open>The candidate set that reaches the emptiness test of line 103.\<close>

definition candidates :: "dataframe \<Rightarrow> int \<Rightarrow> string \<Rightarrow> string \<Rightarrow> dataframe" where
  "candidates df age health goal =
     goal_filter goal (health_filter health (age_coverage_filter df age))"

subsection \<open>Python floats\<close>

text \<open>
  A Python float is an IEEE binary64 number. A finite one is modelled by the rational it
  denotes; every arithmetic operation computes the exact result and rounds it to the
  nearest number with a 53 bit significand, ties to the even significand. The exponent
  range is not bounded: the model is that of binary64 where no operation overflows or
  becomes subnormal, which holds for the magnitudes a validated profile and a catalog of
  rupee amounts produce.
\<close>

definition pow2 :: "int \<Rightarrow> rat" where
  "pow2 e = (if e \<ge> 0 then 2 ^ nat e else 1 / 2 ^ nat (- e))"

definition round_half_even :: "rat \<Rightarrow> int" where
  "round_half_even x =
     (let f = \<lfloor>x\<rfloor>; d = x - of_int f in
      if d < 1 / 2 then f else if d > 1 / 2 then f + 1
      else if even f then f else f + 1)"

text \<open>For \<open>x > 0\<close>, the exponent \<open>k\<close> with \<open>2 ^ k \<le> x < 2 ^ (k + 1)\<close>.\<close>

definition ilog2 :: "rat \<Rightarrow> int" where
  "ilog2 x = (case quotient_of x of (p, q) \<Rightarrow>
      let k = bitlen p - bitlen q in if pow2 k \<le> x then k else k - 1)"

definition fl :: "rat \<Rightarrow> rat" where
  "fl x = (if x = 0 then 0 else
      let e = ilog2 \<bar>x\<bar> - 52 in of_int (round_half_even (x / pow2 e)) * pow2 e)"

definition fadd :: "rat \<Rightarrow> rat \<Rightarrow> rat" where
  "fadd a b = fl (a + b)"

definition fmul :: "rat \<Rightarrow> rat \<Rightarrow> rat" where
  "fmul a b = fl (a * b)"

definition fdiv :: "rat \<Rightarrow> rat \<Rightarrow> rat" where
  "fdiv a b = fl (a / b)"

text \<open>\<^verbatim>\<open>round(x, 2)\<close>: the decimal with two places nearest to the exact value of \<open>x\<close>
  (ties to the even digit), converted back to a float.\<close>

definition py_round2 :: "rat \<Rightarrow> rat" where
  "py_round2 x = fl (of_int (round_half_even (x * 100)) / 100)"

text \<open>\<^verbatim>\<open>round(x)\<close>: an \<^verbatim>\<open>int\<close>.\<close>

definition py_round :: "rat \<Rightarrow> int" where
  "py_round x = round_half_even x"

subsection \<open>Errors and dynamically typed arguments\<close>

datatype error =
    DataUnavailable
  | NoSuitablePolicy
  | InvalidInput string
  | TypeError
  | IndexError

text \<open>The annotations of \<^verbatim>\<open>calculate_risk_score\<close> are not enforced: a caller can pass a
  string where a float is expected and the reverse.\<close>

datatype pyval = PStr string | PFloat rat

text \<open>\<^verbatim>\<open>v < n\<close> for an integer literal \<open>n\<close>: a string operand raises.\<close>

definition py_less :: "pyval \<Rightarrow> int \<Rightarrow> error + bool" where
  "py_less v n = (case v of PFloat x \<Rightarrow> Inr (x < of_int n) | PStr s \<Rightarrow> Inl TypeError)"

subsection \<open>The risk scorer\<close>

definition health_multiplier :: "(string \<times> rat) list" where
  "health_multiplier = [(''Good'', 1), (''Average'', 3 / 2), (''Poor'', 5 / 2)]"

text \<open>\<^verbatim>\<open>health_multiplier.get(health, 1.0)\<close>: a float key equals no string key.\<close>

definition health_multiplier_get :: "pyval \<Rightarrow> rat" where
  "health_multiplier_get health =
     (case health of
        PStr s \<Rightarrow> (case map_of health_multiplier s of Some m \<Rightarrow> m | None \<Rightarrow> 1)
      | PFloat x \<Rightarrow> 1)"

definition calculate_risk_score :: "int \<Rightarrow> pyval \<Rightarrow> pyval \<Rightarrow> error + rat" where
  "calculate_risk_score age health income =
     (let risk_score = 0;
          risk_score =
            (if age < 25 then fadd risk_score 1
             else if age < 35 then fadd risk_score (3 / 2)
             else if age < 50 then fadd risk_score 2
             else fadd risk_score 3);
          risk_score = fmul risk_score (health_multiplier_get health)
      in case py_less income 5 of
           Inl e \<Rightarrow> Inl e
         | Inr True \<Rightarrow> Inr (py_round2 (fmul risk_score (fl (13 / 10))))
         | Inr False \<Rightarrow>
             (case py_less income 15 of
                Inl e \<Rightarrow> Inl e
              | Inr True \<Rightarrow> Inr (py_round2 (fmul risk_score (fl (11 / 10))))
              | Inr False \<Rightarrow> Inr (py_round2 (fmul risk_score (fl (9 / 10))))))"

subsection \<open>Ranking and the result\<close>

record scored_policy = policy +
  age_diff :: int
  affordability_score :: rat

record recommendation =
  best_policy :: scored_policy
  top_policies :: "scored_policy list"
  risk_score :: rat
  total_available :: nat

text \<open>Lines 107 and 108: the two derived columns.\<close>

definition add_scores :: "int \<Rightarrow> rat \<Rightarrow> policy \<Rightarrow> scored_policy" where
  "add_scores age income r =
     policy.extend r
       (scored_policy.fields \<bar>Age r - age\<bar>
          (fmul (fdiv (fl (of_int (Premium_INR r))) (fmul income 1000)) 12))"

text \<open>Lines 111 and 112: \<^verbatim>\<open>sort_values\<close> on three columns, the third descending; rows
  equal on all three keep their order.\<close>

definition sort_values :: "scored_policy list \<Rightarrow> scored_policy list" where
  "sort_values rows =
     sort_key (\<lambda>r. (affordability_score r, age_diff r, - Coverage_Lakhs r)) rows"

text \<open>Lines 76 to 122: what the function does once the risk score is computed.\<close>

definition rank_candidates ::
  "dataframe \<Rightarrow> int \<Rightarrow> rat \<Rightarrow> string \<Rightarrow> string \<Rightarrow> rat \<Rightarrow> error + recommendation" where
  "rank_candidates df age income health goal score =
     (let age_filtered = candidates df age health goal in
      if age_filtered = [] then Inl NoSuitablePolicy
      else
        let recommended = sort_values (map (add_scores age income) age_filtered) in
        case recommended of
          [] \<Rightarrow> Inl IndexError
        | best # rest \<Rightarrow>
            Inr \<lparr>best_policy = best, top_policies = take 5 recommended,
                 risk_score = score, total_available = length age_filtered\<rparr>)"


subsection \<open>Validation and the request handler\<close>



subsection \<open>The premium estimator\<close>

record estimate =
  estimated_premium :: int
  base_rate :: rat
  age_factor :: rat
  health_factor :: rat

definition base_rates :: "(string \<times> rat) list" where
  "base_rates =
     [(''Term Life'', 1 / 2), (''Health'', fl (4 / 5)),
      (''Comprehensive'', fl (6 / 5)), (''Accident Cover'', fl (3 / 10))]"

definition premium_health_multiplier :: "(string \<times> rat) list" where
  "premium_health_multiplier = [(''Good'', 1), (''Average'', fl (13 / 10)), (''Poor'', 2)]"

definition dict_get :: "(string \<times> rat) list \<Rightarrow> string \<Rightarrow> rat \<Rightarrow> rat" where
  "dict_get d k dflt = (case map_of d k of Some v \<Rightarrow> v | None \<Rightarrow> dflt)"

definition calculate_premium_estimate :: "int \<Rightarrow> int \<Rightarrow> string \<Rightarrow> string \<Rightarrow> estimate" where
  "calculate_premium_estimate age coverage_lakhs policy_type health =
     (let base = dict_get base_rates policy_type (fl (4 / 5));
          age_multiplier =
            (if age < 25 then fl (4 / 5)
             else if age < 35 then 1
             else if age < 45 then fl (13 / 10)
             else if age < 55 then fl (17 / 10)
             else 5 / 2);
          estimated =
            fmul (fmul (fmul (fmul (fl (of_int coverage_lakhs)) base) age_multiplier)
                    (dict_get premium_health_multiplier health 1)) 1000
      in \<lparr>estimated_premium = py_round estimated, base_rate = base,
           age_factor = age_multiplier,
           health_factor = dict_get premium_health_multiplier health 1\<rparr>)"

subsection \<open>The first two stages as the specification words them\<close>

text \<open>Stage 1: the age window, falling back to the whole catalog.\<close>

definition spec_age_window :: "dataframe \<Rightarrow> int \<Rightarrow> dataframe" where
  "spec_age_window df age =
     (let kept = filter (\<lambda>r. \<bar>Age r - age\<bar> \<le> 10) df in if kept = [] then df else kept)"

text \<open>Stage 2: the coverage floor on top of stage 1, relaxed to the floor over the whole
  catalog.\<close>

definition spec_coverage_floor :: "dataframe \<Rightarrow> int \<Rightarrow> dataframe" where
  "spec_coverage_floor df age =
     (let kept = filter (\<lambda>r. Coverage_Lakhs r \<ge> 10) (spec_age_window df age)
      in if kept = [] then filter (\<lambda>r. Coverage_Lakhs r \<ge> 10) df else kept)"

subsection \<open>The ranking order as the specification words it\<close>

text \<open>Row \<open>a\<close> may stand before row \<open>b\<close>: a smaller affordability score; on equal scores
  a smaller age difference; on equal age differences a coverage that is not smaller.\<close>

definition ranks_before :: "scored_policy \<Rightarrow> scored_policy \<Rightarrow> bool" where
  "ranks_before a b =
     (affordability_score a < affordability_score b \<or>
      (affordability_score a = affordability_score b \<and>
       (age_diff a < age_diff b \<or>
        (age_diff a = age_diff b \<and> Coverage_Lakhs a \<ge> Coverage_Lakhs b))))"

subsection \<open>The risk score as the specification words it\<close>

definition spec_base :: "int \<Rightarrow> rat" where
  "spec_base age = (if age < 25 then 1 else if age < 35 then 3 / 2 else if age < 50 then 2 else 3)"

definition spec_health_factor :: "string \<Rightarrow> rat" where
  "spec_health_factor health =
     (if health = ''Good'' then 1 else if health = ''Average'' then 3 / 2
      else if health = ''Poor'' then 5 / 2 else 1)"

definition spec_income_factor :: "rat \<Rightarrow> rat" where
  "spec_income_factor income =
     (if income < 5 then 13 / 10 else if income < 15 then 11 / 10 else 9 / 10)"

text \<open>The product of the three factors, in exact decimal arithmetic.\<close>

definition spec_risk_exact :: "int \<Rightarrow> string \<Rightarrow> rat \<Rightarrow> rat" where
  "spec_risk_exact age health income =
     spec_base age * spec_health_factor health * spec_income_factor income"

text \<open>The float \<open>r\<close> is \<open>x\<close> rounded to 2 decimal places: \<open>r\<close> is the float of a decimal \<open>d\<close>
  with two places, and no decimal with two places is nearer to \<open>x\<close> than \<open>d\<close>.\<close>

definition is_rounded_2dp :: "rat \<Rightarrow> rat \<Rightarrow> bool" where
  "is_rounded_2dp x r =
     (let d = of_int (round_half_even (r * 100)) / 100 in r = fl d \<and> \<bar>d - x\<bar> \<le> 1 / 200)"

subsection \<open>The premium factors as the specification words them\<close>

definition spec_base_rate :: "string \<Rightarrow> rat" where
  "spec_base_rate policy_type =
     (if policy_type = ''Term Life'' then 5 / 10
      else if policy_type = ''Health'' then 8 / 10
      else if policy_type = ''Comprehensive'' then 12 / 10
      else if policy_type = ''Accident Cover'' then 3 / 10
      else 8 / 10)"

definition spec_age_factor :: "int \<Rightarrow> rat" where
  "spec_age_factor age =
     (if age < 25 then 8 / 10 else if age < 35 then 1 else if age < 45 then 13 / 10
      else if age < 55 then 17 / 10 else 25 / 10)"

definition spec_premium_health_factor :: "string \<Rightarrow> rat" where
  "spec_premium_health_factor health =
     (if health = ''Good'' then 1 else if health = ''Average'' then 13 / 10
      else if health = ''Poor'' then 2 else 1)"

section \<open>Properties of the core\<close>

subsection \<open>Strings\<close>

lemma startswith_iff: "startswith s k \<longleftrightarrow> (\<exists>ss. s = k @ ss)"
  by (induction s k rule: startswith.induct) auto

lemma str_in_iff: "str_in k s \<longleftrightarrow> (\<exists>ps ss. s = ps @ k @ ss)"
proof (induction s)
  case Nil
  then show ?case by simp
next
  case (Cons c cs)
  show ?case
  proof
    assume "str_in k (c # cs)"
    then consider "startswith (c # cs) k" | "str_in k cs" by auto
    then show "\<exists>ps ss. c # cs = ps @ k @ ss"
    proof cases
      case 1
      then obtain ss where "c # cs = k @ ss" by (auto simp: startswith_iff)
      then have "c # cs = [] @ k @ ss" by simp
      then show ?thesis by blast
    next
      case 2
      then obtain ps ss where "cs = ps @ k @ ss" using Cons.IH by auto
      then have "c # cs = (c # ps) @ k @ ss" by simp
      then show ?thesis by blast
    qed
  next
    assume "\<exists>ps ss. c # cs = ps @ k @ ss"
    then obtain ps ss where eq: "c # cs = ps @ k @ ss" by auto
    show "str_in k (c # cs)"
    proof (cases ps)
      case Nil
      with eq have "startswith (c # cs) k" by (auto simp: startswith_iff)
      then show ?thesis by simp
    next
      case (Cons p ps')
      with eq have "cs = ps' @ k @ ss" by simp
      then have "str_in k cs" using Cons.IH by auto
      then show ?thesis by simp
    qed
  qed
qed

lemma lower_health:
  "lower ''Poor'' = ''poor''" "lower ''Good'' = ''good''" "lower ''Average'' = ''average''"
  by (simp_all add: lower_def lower_char_def)

subsection \<open>The age window and the coverage floor\<close>

lemma window_mask:
  "filter (\<lambda>r. Age r \<ge> age - 10 \<and> Age r \<le> age + 10 \<and> Coverage_Lakhs r \<ge> 10) df =
   filter (\<lambda>r. Coverage_Lakhs r \<ge> 10) (filter (\<lambda>r. \<bar>Age r - age\<bar> \<le> 10) df)"
  by (induction df) auto

text \<open>
  Claim C4. For every catalog and every age, the two stages of the specification (the age
  window with its fallback to the whole catalog, then the coverage floor with its
  fallback to the floor over the whole catalog) produce the same rows, in the same
  order, as the single combined mask of the code with its one fallback.
\<close>

theorem two_step_equals_combined_filter:
  "spec_coverage_floor df age = age_coverage_filter df age"
proof (cases "filter (\<lambda>r. \<bar>Age r - age\<bar> \<le> 10) df = []")
  case True
  then show ?thesis
    by (simp add: spec_coverage_floor_def spec_age_window_def age_coverage_filter_def
        window_mask)
next
  case False
  then show ?thesis
    by (simp add: spec_coverage_floor_def spec_age_window_def age_coverage_filter_def
        window_mask)
qed

subsection \<open>Empty candidate sets\<close>

lemma goal_filter_Nil: "goal_filter goal [] = []"
  by (simp add: goal_filter_def Let_def)


lemma rank_candidates_empty:
  "candidates df age health goal = [] \<Longrightarrow>
   rank_candidates df age income health goal score = Inl NoSuitablePolicy"
  by (simp add: rank_candidates_def)

lemma sort_values_length: "length (sort_values rows) = length rows"
  by (simp add: sort_values_def)

lemma sort_values_Nil_iff: "sort_values rows = [] \<longleftrightarrow> rows = []"
  using sort_values_length [of rows] by (metis length_0_conv)

subsection \<open>The health filter\<close>

text \<open>
  Claim C2, as the specification states it, fails on the fallback: with poor health and a
  candidate set of one Term Life row, the restriction to Health and Comprehensive is
  empty and the stage returns that empty set, not the set it was given.
\<close>

theorem health_filter_counterexample:
  "filter (\<lambda>r. isin (Policy_Type r) [''Health'', ''Comprehensive''])
     [\<lparr>Policy_Type = ''Term Life'', Coverage_Lakhs = 20, Premium_INR = 5000, Age = 30\<rparr>] = []
   \<and> health_filter ''Poor''
     [\<lparr>Policy_Type = ''Term Life'', Coverage_Lakhs = 20, Premium_INR = 5000, Age = 30\<rparr>] = []
   \<and> health_filter ''Poor''
     [\<lparr>Policy_Type = ''Term Life'', Coverage_Lakhs = 20, Premium_INR = 5000, Age = 30\<rparr>] \<noteq>
     [\<lparr>Policy_Type = ''Term Life'', Coverage_Lakhs = 20, Premium_INR = 5000, Age = 30\<rparr>]"
  by (simp add: health_filter_def isin_def lower_health)

text \<open>
  Claim C2, amended. When health is Poor the candidate set is restricted to the rows of
  type Health or Comprehensive, in catalog order; for Good and Average the set is
  unchanged. There is no fallback at this stage: when the restriction leaves no row of
  the set that entered the stage, the pipeline ends in \<open>NoSuitablePolicy\<close>.
\<close>

theorem health_filter_restricts_without_fallback:
  "health_filter ''Poor'' rows =
     filter (\<lambda>r. Policy_Type r = ''Health'' \<or> Policy_Type r = ''Comprehensive'') rows
   \<and> health_filter ''Good'' rows = rows
   \<and> health_filter ''Average'' rows = rows
   \<and> (filter (\<lambda>r. Policy_Type r = ''Health'' \<or> Policy_Type r = ''Comprehensive'')
         (age_coverage_filter df age) = [] \<longrightarrow>
       rank_candidates df age income ''Poor'' goal score = Inl NoSuitablePolicy)"
proof -
  have poor: "health_filter ''Poor'' xs =
     filter (\<lambda>r. Policy_Type r = ''Health'' \<or> Policy_Type r = ''Comprehensive'') xs" for xs
    by (simp add: health_filter_def isin_def lower_health)
  have good: "health_filter ''Good'' rows = rows" "health_filter ''Average'' rows = rows"
    by (simp_all add: health_filter_def lower_health)
  have "rank_candidates df age income ''Poor'' goal score = Inl NoSuitablePolicy"
    if "filter (\<lambda>r. Policy_Type r = ''Health'' \<or> Policy_Type r = ''Comprehensive'')
         (age_coverage_filter df age) = []"
    using that by (simp add: rank_candidates_empty candidates_def poor goal_filter_Nil)
  with poor good show ?thesis by blast
qed

theorem health_filter_restricts_without_fallback_witness:
  "filter (\<lambda>r. Policy_Type r = ''Health'' \<or> Policy_Type r = ''Comprehensive'')
     (age_coverage_filter
        [\<lparr>Policy_Type = ''Term Life'', Coverage_Lakhs = 20, Premium_INR = 5000, Age = 30\<rparr>] 30) = []
   \<and> rank_candidates
        [\<lparr>Policy_Type = ''Term Life'', Coverage_Lakhs = 20, Premium_INR = 5000, Age = 30\<rparr>]
        30 10 ''Poor'' ''retirement plan'' 1 = Inl NoSuitablePolicy"
proof -
  have h: "filter (\<lambda>r. Policy_Type r = ''Health'' \<or> Policy_Type r = ''Comprehensive'')
     (age_coverage_filter
        [\<lparr>Policy_Type = ''Term Life'', Coverage_Lakhs = 20, Premium_INR = 5000, Age = 30\<rparr>] 30) = []"
    by (simp add: age_coverage_filter_def)
  show ?thesis
    using h health_filter_restricts_without_fallback
      [of "[]" "[\<lparr>Policy_Type = ''Term Life'', Coverage_Lakhs = 20, Premium_INR = 5000, Age = 30\<rparr>]"
          30 10 "''retirement plan''" 1]
    by blast
qed

subsection \<open>The goal keyword filter\<close>

text \<open>
  Claim C3, as the specification states it, fails on the last point: a goal with the
  keyword "family" and a candidate set with no row of coverage 15 or more leaves the
  empty set, not the set that entered the stage.
\<close>

theorem goal_filter_counterexample:
  "str_in ''family'' (lower ''Family protection'')
   \<and> goal_filter ''Family protection''
     [\<lparr>Policy_Type = ''Health'', Coverage_Lakhs = 10, Premium_INR = 5000, Age = 30\<rparr>] = []
   \<and> goal_filter ''Family protection''
     [\<lparr>Policy_Type = ''Health'', Coverage_Lakhs = 10, Premium_INR = 5000, Age = 30\<rparr>] \<noteq>
     [\<lparr>Policy_Type = ''Health'', Coverage_Lakhs = 10, Premium_INR = 5000, Age = 30\<rparr>]"
  by (simp add: goal_filter_def lower_def lower_char_def)

text \<open>
  Claim C3, amended. The keywords are looked for in the lower-cased goal text and the
  first rule that matches is the only one applied: "family" or "dependent" keeps the rows
  with coverage of at least 15; otherwise "critical" or "serious" keeps the types Health
  and Comprehensive; otherwise "save" or "investment" keeps the types Term Life and
  Comprehensive; otherwise the set is unchanged. In particular a goal with both "family"
  and "critical" applies the family rule only. The result of the stage is the restricted
  set itself, also when it is empty.
\<close>

theorem goal_filter_first_match_without_fallback:
  "((str_in ''family'' (lower goal) \<or> str_in ''dependent'' (lower goal)) \<longrightarrow>
      goal_filter goal rows = filter (\<lambda>r. Coverage_Lakhs r \<ge> 15) rows)
   \<and> (\<not> (str_in ''family'' (lower goal) \<or> str_in ''dependent'' (lower goal)) \<and>
       (str_in ''critical'' (lower goal) \<or> str_in ''serious'' (lower goal)) \<longrightarrow>
      goal_filter goal rows =
        filter (\<lambda>r. Policy_Type r = ''Health'' \<or> Policy_Type r = ''Comprehensive'') rows)
   \<and> (\<not> (str_in ''family'' (lower goal) \<or> str_in ''dependent'' (lower goal)) \<and>
       \<not> (str_in ''critical'' (lower goal) \<or> str_in ''serious'' (lower goal)) \<and>
       (str_in ''save'' (lower goal) \<or> str_in ''investment'' (lower goal)) \<longrightarrow>
      goal_filter goal rows =
        filter (\<lambda>r. Policy_Type r = ''Term Life'' \<or> Policy_Type r = ''Comprehensive'') rows)
   \<and> (\<not> (str_in ''family'' (lower goal) \<or> str_in ''dependent'' (lower goal)) \<and>
       \<not> (str_in ''critical'' (lower goal) \<or> str_in ''serious'' (lower goal)) \<and>
       \<not> (str_in ''save'' (lower goal) \<or> str_in ''investment'' (lower goal)) \<longrightarrow>
      goal_filter goal rows = rows)"
  by (simp add: goal_filter_def Let_def isin_def)

theorem goal_filter_first_match_without_fallback_witness:
  "str_in ''family'' (lower ''Family and CRITICAL illness'')
   \<and> str_in ''critical'' (lower ''Family and CRITICAL illness'')
   \<and> goal_filter ''Family and CRITICAL illness''
        [\<lparr>Policy_Type = ''Term Life'', Coverage_Lakhs = 20, Premium_INR = 5000, Age = 30\<rparr>,
         \<lparr>Policy_Type = ''Health'', Coverage_Lakhs = 10, Premium_INR = 4000, Age = 30\<rparr>] =
        [\<lparr>Policy_Type = ''Term Life'', Coverage_Lakhs = 20, Premium_INR = 5000, Age = 30\<rparr>]
   \<and> goal_filter ''Serious illness''
        [\<lparr>Policy_Type = ''Term Life'', Coverage_Lakhs = 20, Premium_INR = 5000, Age = 30\<rparr>,
         \<lparr>Policy_Type = ''Health'', Coverage_Lakhs = 10, Premium_INR = 4000, Age = 30\<rparr>] =
        [\<lparr>Policy_Type = ''Health'', Coverage_Lakhs = 10, Premium_INR = 4000, Age = 30\<rparr>]
   \<and> goal_filter ''Investment plan''
        [\<lparr>Policy_Type = ''Term Life'', Coverage_Lakhs = 20, Premium_INR = 5000, Age = 30\<rparr>,
         \<lparr>Policy_Type = ''Health'', Coverage_Lakhs = 10, Premium_INR = 4000, Age = 30\<rparr>] =
        [\<lparr>Policy_Type = ''Term Life'', Coverage_Lakhs = 20, Premium_INR = 5000, Age = 30\<rparr>]
   \<and> goal_filter ''Retirement''
        [\<lparr>Policy_Type = ''Term Life'', Coverage_Lakhs = 20, Premium_INR = 5000, Age = 30\<rparr>,
         \<lparr>Policy_Type = ''Health'', Coverage_Lakhs = 10, Premium_INR = 4000, Age = 30\<rparr>] =
        [\<lparr>Policy_Type = ''Term Life'', Coverage_Lakhs = 20, Premium_INR = 5000, Age = 30\<rparr>,
         \<lparr>Policy_Type = ''Health'', Coverage_Lakhs = 10, Premium_INR = 4000, Age = 30\<rparr>]"
  using
    goal_filter_first_match_without_fallback [of "''Family and CRITICAL illness''"
      "[\<lparr>Policy_Type = ''Term Life'', Coverage_Lakhs = 20, Premium_INR = 5000, Age = 30\<rparr>,
        \<lparr>Policy_Type = ''Health'', Coverage_Lakhs = 10, Premium_INR = 4000, Age = 30\<rparr>]"]
    goal_filter_first_match_without_fallback [of "''Serious illness''"
      "[\<lparr>Policy_Type = ''Term Life'', Coverage_Lakhs = 20, Premium_INR = 5000, Age = 30\<rparr>,
        \<lparr>Policy_Type = ''Health'', Coverage_Lakhs = 10, Premium_INR = 4000, Age = 30\<rparr>]"]
    goal_filter_first_match_without_fallback [of "''Investment plan''"
      "[\<lparr>Policy_Type = ''Term Life'', Coverage_Lakhs = 20, Premium_INR = 5000, Age = 30\<rparr>,
        \<lparr>Policy_Type = ''Health'', Coverage_Lakhs = 10, Premium_INR = 4000, Age = 30\<rparr>]"]
    goal_filter_first_match_without_fallback [of "''Retirement''"
      "[\<lparr>Policy_Type = ''Term Life'', Coverage_Lakhs = 20, Premium_INR = 5000, Age = 30\<rparr>,
        \<lparr>Policy_Type = ''Health'', Coverage_Lakhs = 10, Premium_INR = 4000, Age = 30\<rparr>]"]
  by (simp add: lower_def lower_char_def)

subsection \<open>The outcome of the pipeline\<close>



lemma rank_candidates_nonempty:
  assumes "candidates df age health goal \<noteq> []"
  shows "\<exists>best rest.
           sort_values (map (add_scores age income) (candidates df age health goal)) = best # rest \<and>
           rank_candidates df age income health goal score =
             Inr \<lparr>best_policy = best, top_policies = take 5 (best # rest), risk_score = score,
                  total_available = length (candidates df age health goal)\<rparr>"
proof -
  have "sort_values (map (add_scores age income) (candidates df age health goal)) \<noteq> []"
    using assms by (simp add: sort_values_Nil_iff)
  then obtain best rest where
    s: "sort_values (map (add_scores age income) (candidates df age health goal)) = best # rest"
    by (cases "sort_values (map (add_scores age income) (candidates df age health goal))") auto
  with assms show ?thesis by (simp add: rank_candidates_def Let_def)
qed





subsection \<open>Validation\<close>



subsection \<open>Ranking\<close>

lemma sort_values_mset: "mset (sort_values rows) = mset rows"
  by (simp add: sort_values_def)

lemma sort_values_ranked: "sorted_wrt ranks_before (sort_values rows)"
proof -
  have "sorted (map (\<lambda>r. (affordability_score r, age_diff r, - Coverage_Lakhs r))
          (sort_values rows))"
    unfolding sort_values_def by (rule sorted_sort_key)
  then have "sorted_wrt
      (\<lambda>a b. (affordability_score a, age_diff a, - Coverage_Lakhs a) \<le>
             (affordability_score b, age_diff b, - Coverage_Lakhs b)) (sort_values rows)"
    by (simp add: sorted_map)
  then show ?thesis
    by (rule sorted_wrt_mono_rel [rotated]) (auto simp: ranks_before_def)
qed

lemma add_scores_columns:
  "age_diff (add_scores age income r) = \<bar>Age r - age\<bar>"
  "affordability_score (add_scores age income r) =
     fmul (fdiv (fl (of_int (Premium_INR r))) (fmul income 1000)) 12"
  "Policy_Type (add_scores age income r) = Policy_Type r"
  "Coverage_Lakhs (add_scores age income r) = Coverage_Lakhs r"
  "Premium_INR (add_scores age income r) = Premium_INR r"
  "Age (add_scores age income r) = Age r"
  by (simp_all add: add_scores_def policy.defs scored_policy.defs)

text \<open>
  Claim C5. For a candidate set that is not empty and a positive income, every candidate
  row gets the age difference \<open>\<bar>row age - age\<bar>\<close> and the affordability score
  \<open>premium / (income * 1000) * 12\<close> (in float arithmetic); the ranked rows are the
  candidate rows with these two columns, rearranged so that each row may stand before
  every later one (ascending affordability score, then ascending age difference, then
  descending coverage); the best policy is the first ranked row and the shortlist is the
  first 5 ranked rows, or all of them when there are fewer.
\<close>

theorem ranking_orders_candidates:
  assumes "candidates df age health goal \<noteq> []" and "0 < income"
  shows "\<exists>rec recommended.
           rank_candidates df age income health goal score = Inr rec \<and>
           mset recommended = mset (map (add_scores age income) (candidates df age health goal)) \<and>
           sorted_wrt ranks_before recommended \<and>
           best_policy rec = recommended ! 0 \<and>
           top_policies rec = take 5 recommended \<and>
           length (top_policies rec) = min 5 (length (candidates df age health goal)) \<and>
           (\<forall>r. age_diff (add_scores age income r) = \<bar>Age r - age\<bar> \<and>
                affordability_score (add_scores age income r) =
                  fmul (fdiv (fl (of_int (Premium_INR r))) (fmul income 1000)) 12 \<and>
                Policy_Type (add_scores age income r) = Policy_Type r \<and>
                Coverage_Lakhs (add_scores age income r) = Coverage_Lakhs r \<and>
                Premium_INR (add_scores age income r) = Premium_INR r \<and>
                Age (add_scores age income r) = Age r)"
proof -
  let ?rows = "map (add_scores age income) (candidates df age health goal)"
  from rank_candidates_nonempty [OF assms(1), of income score]
  obtain best rest where
    s: "sort_values ?rows = best # rest" and
    r: "rank_candidates df age income health goal score =
          Inr \<lparr>best_policy = best, top_policies = take 5 (best # rest), risk_score = score,
               total_available = length (candidates df age health goal)\<rparr>"
    by blast
  let ?rec = "\<lparr>best_policy = best, top_policies = take 5 (best # rest), risk_score = score,
               total_available = length (candidates df age health goal)\<rparr>"
  have m: "mset (best # rest) = mset ?rows"
    using sort_values_mset [of ?rows] s by simp
  have o: "sorted_wrt ranks_before (best # rest)"
    using sort_values_ranked [of ?rows] s by simp
  have l: "length (best # rest) = length (candidates df age health goal)"
    using sort_values_length [of ?rows] s by simp
  have n: "length (top_policies ?rec) = min 5 (length (candidates df age health goal))"
    using l by (simp add: min_def)
  have "rank_candidates df age income health goal score = Inr ?rec \<and>
        mset (best # rest) = mset ?rows \<and> sorted_wrt ranks_before (best # rest) \<and>
        best_policy ?rec = (best # rest) ! 0 \<and> top_policies ?rec = take 5 (best # rest) \<and>
        length (top_policies ?rec) = min 5 (length (candidates df age health goal))"
    using r m o n by simp
  then show ?thesis using add_scores_columns by blast
qed

theorem ranking_orders_candidates_witness:
  "candidates
     [\<lparr>Policy_Type = ''Health'', Coverage_Lakhs = 20, Premium_INR = 5000, Age = 30\<rparr>,
      \<lparr>Policy_Type = ''Term Life'', Coverage_Lakhs = 25, Premium_INR = 4000, Age = 33\<rparr>]
     30 ''Good'' ''Retirement plan'' \<noteq> []
   \<and> (0::rat) < 10
   \<and> (\<exists>rec recommended.
         rank_candidates
           [\<lparr>Policy_Type = ''Health'', Coverage_Lakhs = 20, Premium_INR = 5000, Age = 30\<rparr>,
            \<lparr>Policy_Type = ''Term Life'', Coverage_Lakhs = 25, Premium_INR = 4000, Age = 33\<rparr>]
           30 10 ''Good'' ''Retirement plan'' 1 = Inr rec \<and>
         sorted_wrt ranks_before recommended \<and>
         best_policy rec = recommended ! 0 \<and>
         top_policies rec = take 5 recommended)"
proof -
  have h1: "candidates
     [\<lparr>Policy_Type = ''Health'', Coverage_Lakhs = 20, Premium_INR = 5000, Age = 30\<rparr>,
      \<lparr>Policy_Type = ''Term Life'', Coverage_Lakhs = 25, Premium_INR = 4000, Age = 33\<rparr>]
     30 ''Good'' ''Retirement plan'' \<noteq> []"
    by (simp add: candidates_def age_coverage_filter_def health_filter_def goal_filter_def
        lower_def lower_char_def)
  have h2: "(0::rat) < 10" by simp
  show ?thesis
    using h1 h2 ranking_orders_candidates [OF h1 h2, of 1] by blast
qed

text \<open>On a concrete catalog: the cheaper Term Life row comes first.\<close>

lemma ranking_example:
  "rank_candidates
     [\<lparr>Policy_Type = ''Health'', Coverage_Lakhs = 20, Premium_INR = 5000, Age = 30\<rparr>,
      \<lparr>Policy_Type = ''Term Life'', Coverage_Lakhs = 25, Premium_INR = 4000, Age = 33\<rparr>]
     30 10 ''Good'' ''Retirement plan'' 1 =
   Inr \<lparr>best_policy =
          \<lparr>Policy_Type = ''Term Life'', Coverage_Lakhs = 25, Premium_INR = 4000, Age = 33,
             age_diff = 3, affordability_score = 1351079888211149 / 281474976710656\<rparr>,
        top_policies =
          [\<lparr>Policy_Type = ''Term Life'', Coverage_Lakhs = 25, Premium_INR = 4000, Age = 33,
              age_diff = 3, affordability_score = 1351079888211149 / 281474976710656\<rparr>,
           \<lparr>Policy_Type = ''Health'', Coverage_Lakhs = 20, Premium_INR = 5000, Age = 30,
              age_diff = 0, affordability_score = 6\<rparr>],
        risk_score = 1, total_available = 2\<rparr>"
  by code_simp

subsection \<open>The risk score\<close>

text \<open>The bases, the health multipliers and their products are floats, so adding a
  base to 0.0 and multiplying it by a health multiplier is exact.\<close>

lemma fadd_base:
  "fadd 0 1 = 1" "fadd 0 (3 / 2) = 3 / 2" "fadd 0 2 = 2" "fadd 0 3 = 3"
  by code_simp+

lemma fmul_base_health:
  "fmul 1 1 = 1"
  "fmul 1 (3 / 2) = 3 / 2"
  "fmul 1 (5 / 2) = 5 / 2"
  "fmul (3 / 2) 1 = 3 / 2"
  "fmul (3 / 2) (3 / 2) = 9 / 4"
  "fmul (3 / 2) (5 / 2) = 15 / 4"
  "fmul 2 1 = 2"
  "fmul 2 (3 / 2) = 3"
  "fmul 2 (5 / 2) = 5"
  "fmul 3 1 = 3"
  "fmul 3 (3 / 2) = 9 / 2"
  "fmul 3 (5 / 2) = 15 / 2"
  by code_simp+

text \<open>The value of \<^verbatim>\<open>round(p * f, 2)\<close> for every product \<open>p\<close> of a base and a
  health multiplier and every income multiplier \<open>f\<close>.\<close>

lemma risk_values:
  "py_round2 (fmul 1 (fl (13 / 10))) = 5854679515581645 / 4503599627370496"
  "py_round2 (fmul 1 (fl (11 / 10))) = 2476979795053773 / 2251799813685248"
  "py_round2 (fmul 1 (fl (9 / 10))) = 8106479329266893 / 9007199254740992"
  "py_round2 (fmul (3 / 2) (fl (13 / 10))) = 8782019273372467 / 4503599627370496"
  "py_round2 (fmul (3 / 2) (fl (11 / 10))) = 3715469692580659 / 2251799813685248"
  "py_round2 (fmul (3 / 2) (fl (9 / 10))) = 3039929748475085 / 2251799813685248"
  "py_round2 (fmul 2 (fl (13 / 10))) = 5854679515581645 / 2251799813685248"
  "py_round2 (fmul 2 (fl (11 / 10))) = 2476979795053773 / 1125899906842624"
  "py_round2 (fmul 2 (fl (9 / 10))) = 8106479329266893 / 4503599627370496"
  "py_round2 (fmul (9 / 4) (fl (13 / 10))) = 6597773454097777 / 2251799813685248"
  "py_round2 (fmul (9 / 4) (fl (11 / 10))) = 5584463537939415 / 2251799813685248"
  "py_round2 (fmul (9 / 4) (fl (9 / 10))) = 4548635623644201 / 2251799813685248"
  "py_round2 (fmul (5 / 2) (fl (13 / 10))) = 13 / 4"
  "py_round2 (fmul (5 / 2) (fl (11 / 10))) = 11 / 4"
  "py_round2 (fmul (5 / 2) (fl (9 / 10))) = 9 / 4"
  "py_round2 (fmul 3 (fl (13 / 10))) = 8782019273372467 / 2251799813685248"
  "py_round2 (fmul 3 (fl (11 / 10))) = 3715469692580659 / 1125899906842624"
  "py_round2 (fmul 3 (fl (9 / 10))) = 3039929748475085 / 1125899906842624"
  "py_round2 (fmul (15 / 4) (fl (13 / 10))) = 5494391545392005 / 1125899906842624"
  "py_round2 (fmul (15 / 4) (fl (11 / 10))) = 4638707616191611 / 1125899906842624"
  "py_round2 (fmul (15 / 4) (fl (9 / 10))) = 3805541685128069 / 1125899906842624"
  "py_round2 (fmul (9 / 2) (fl (13 / 10))) = 3293257227514675 / 562949953421312"
  "py_round2 (fmul (9 / 2) (fl (11 / 10))) = 5573204538870989 / 1125899906842624"
  "py_round2 (fmul (9 / 2) (fl (9 / 10))) = 4559894622712627 / 1125899906842624"
  "py_round2 (fmul 5 (fl (13 / 10))) = 13 / 2"
  "py_round2 (fmul 5 (fl (11 / 10))) = 11 / 2"
  "py_round2 (fmul 5 (fl (9 / 10))) = 9 / 2"
  "py_round2 (fmul (15 / 2) (fl (13 / 10))) = 39 / 4"
  "py_round2 (fmul (15 / 2) (fl (11 / 10))) = 33 / 4"
  "py_round2 (fmul (15 / 2) (fl (9 / 10))) = 27 / 4"
  by code_simp+

text \<open>Each of these values is the exact product rounded to two places.\<close>

lemma rounded_values:
  "is_rounded_2dp (13 / 10) (5854679515581645 / 4503599627370496)"
  "is_rounded_2dp (11 / 10) (2476979795053773 / 2251799813685248)"
  "is_rounded_2dp (9 / 10) (8106479329266893 / 9007199254740992)"
  "is_rounded_2dp (39 / 20) (8782019273372467 / 4503599627370496)"
  "is_rounded_2dp (33 / 20) (3715469692580659 / 2251799813685248)"
  "is_rounded_2dp (27 / 20) (3039929748475085 / 2251799813685248)"
  "is_rounded_2dp (13 / 5) (5854679515581645 / 2251799813685248)"
  "is_rounded_2dp (11 / 5) (2476979795053773 / 1125899906842624)"
  "is_rounded_2dp (9 / 5) (8106479329266893 / 4503599627370496)"
  "is_rounded_2dp (117 / 40) (6597773454097777 / 2251799813685248)"
  "is_rounded_2dp (99 / 40) (5584463537939415 / 2251799813685248)"
  "is_rounded_2dp (81 / 40) (4548635623644201 / 2251799813685248)"
  "is_rounded_2dp (13 / 4) (13 / 4)"
  "is_rounded_2dp (11 / 4) (11 / 4)"
  "is_rounded_2dp (9 / 4) (9 / 4)"
  "is_rounded_2dp (39 / 10) (8782019273372467 / 2251799813685248)"
  "is_rounded_2dp (33 / 10) (3715469692580659 / 1125899906842624)"
  "is_rounded_2dp (27 / 10) (3039929748475085 / 1125899906842624)"
  "is_rounded_2dp (39 / 8) (5494391545392005 / 1125899906842624)"
  "is_rounded_2dp (33 / 8) (4638707616191611 / 1125899906842624)"
  "is_rounded_2dp (27 / 8) (3805541685128069 / 1125899906842624)"
  "is_rounded_2dp (117 / 20) (3293257227514675 / 562949953421312)"
  "is_rounded_2dp (99 / 20) (5573204538870989 / 1125899906842624)"
  "is_rounded_2dp (81 / 20) (4559894622712627 / 1125899906842624)"
  "is_rounded_2dp (13 / 2) (13 / 2)"
  "is_rounded_2dp (11 / 2) (11 / 2)"
  "is_rounded_2dp (9 / 2) (9 / 2)"
  "is_rounded_2dp (39 / 4) (39 / 4)"
  "is_rounded_2dp (33 / 4) (33 / 4)"
  "is_rounded_2dp (27 / 4) (27 / 4)"
  by code_simp+

text \<open>The code against the specification's three factors, in float arithmetic.\<close>

lemma risk_score_float:
  "calculate_risk_score age (PStr health) (PFloat income) =
     Inr (py_round2 (fmul (fmul (spec_base age) (spec_health_factor health))
            (fl (spec_income_factor income))))"
  by (simp add: calculate_risk_score_def Let_def py_less_def health_multiplier_get_def
      health_multiplier_def spec_base_def spec_health_factor_def spec_income_factor_def
      fadd_base)

lemma risk_score_rounded:
  "is_rounded_2dp (spec_risk_exact age health income)
     (py_round2 (fmul (fmul (spec_base age) (spec_health_factor health))
        (fl (spec_income_factor income))))"
  by (simp add: spec_risk_exact_def spec_base_def spec_health_factor_def
      spec_income_factor_def fmul_base_health risk_values rounded_values)

text \<open>
  Claim C6. For every age, health string and income, the risk score is the product of
  the specification's base, health factor and income factor, rounded to 2 decimal
  places: it is the result of that computation in float arithmetic, and it is the float
  of a two-place decimal that is nearest to the exact product.
\<close>

theorem risk_score_is_rounded_reference:
  "\<exists>s. calculate_risk_score age (PStr health) (PFloat income) = Inr s \<and>
        s = py_round2 (fmul (fmul (spec_base age) (spec_health_factor health))
              (fl (spec_income_factor income))) \<and>
        is_rounded_2dp (spec_risk_exact age health income) s"
  using risk_score_float [of age health income] risk_score_rounded [of age health income]
  by simp

text \<open>
  Where the exact product lies halfway between two decimals, the float product decides:
  2.925 (age 30, Average, income 3) becomes 2.93 and 2.025 (income 20) becomes 2.02.
\<close>

lemma risk_score_ties:
  "spec_risk_exact 30 ''Average'' 3 = 2925 / 1000"
  "calculate_risk_score 30 (PStr ''Average'') (PFloat 3) = Inr (fl (293 / 100))"
  "spec_risk_exact 30 ''Average'' 20 = 2025 / 1000"
  "calculate_risk_score 30 (PStr ''Average'') (PFloat 20) = Inr (fl (202 / 100))"
  by code_simp+

text \<open>
  Claim C9. With health and income fixed, the risk score does not decrease when the age
  grows, so in particular not from one age bracket to a higher one; with age and income
  fixed, the score for Good is at most the score for Average, which is at most the score
  for Poor.
\<close>

theorem risk_score_monotone:
  "(age1 \<le> age2 \<longrightarrow>
      (\<exists>s1 s2. calculate_risk_score age1 (PStr health) (PFloat income) = Inr s1 \<and>
         calculate_risk_score age2 (PStr health) (PFloat income) = Inr s2 \<and> s1 \<le> s2))
   \<and> (\<exists>g a p. calculate_risk_score age (PStr ''Good'') (PFloat income) = Inr g \<and>
         calculate_risk_score age (PStr ''Average'') (PFloat income) = Inr a \<and>
         calculate_risk_score age (PStr ''Poor'') (PFloat income) = Inr p \<and>
         g \<le> a \<and> a \<le> p)"
proof
  show "age1 \<le> age2 \<longrightarrow>
      (\<exists>s1 s2. calculate_risk_score age1 (PStr health) (PFloat income) = Inr s1 \<and>
         calculate_risk_score age2 (PStr health) (PFloat income) = Inr s2 \<and> s1 \<le> s2)"
    by (simp add: risk_score_float spec_base_def spec_health_factor_def
        spec_income_factor_def fmul_base_health risk_values)
  show "\<exists>g a p. calculate_risk_score age (PStr ''Good'') (PFloat income) = Inr g \<and>
         calculate_risk_score age (PStr ''Average'') (PFloat income) = Inr a \<and>
         calculate_risk_score age (PStr ''Poor'') (PFloat income) = Inr p \<and>
         g \<le> a \<and> a \<le> p"
    by (simp add: risk_score_float spec_base_def spec_health_factor_def
        spec_income_factor_def fmul_base_health risk_values)
qed

theorem risk_score_monotone_witness:
  "(24::int) \<le> 25
   \<and> (\<exists>s1 s2. calculate_risk_score 24 (PStr ''Average'') (PFloat 10) = Inr s1 \<and>
         calculate_risk_score 25 (PStr ''Average'') (PFloat 10) = Inr s2 \<and> s1 \<le> s2)"
proof -
  have h: "(24::int) \<le> 25" by simp
  show ?thesis using h risk_score_monotone [of 24 25 "''Average''" 10] by blast
qed

lemma fl_nine_tenths: "fl (9 / 10) = 8106479329266893 / 9007199254740992"
  by code_simp

text \<open>
  Claim C10. For a valid profile (age from 18 to 100, health Good, Average or Poor,
  income positive and at most 1000) the risk score lies between 0.9 and 9.75, both as
  decimals and as the floats of these literals; so it never exceeds 10.
\<close>

theorem risk_score_bounds:
  assumes "18 \<le> age" and "age \<le> 100"
    and "health \<in> {''Good'', ''Average'', ''Poor''}"
    and "0 < income" and "income \<le> 1000"
  shows "\<exists>s. calculate_risk_score age (PStr health) (PFloat income) = Inr s \<and>
           9 / 10 \<le> s \<and> fl (9 / 10) \<le> s \<and> s \<le> 39 / 4 \<and> s \<le> 10"
proof -
  have "\<exists>s. calculate_risk_score age (PStr health) (PFloat income) = Inr s \<and>
           9 / 10 \<le> s \<and> 8106479329266893 / 9007199254740992 \<le> s \<and> s \<le> 39 / 4 \<and> s \<le> 10"
    by (simp add: risk_score_float spec_base_def spec_health_factor_def
        spec_income_factor_def fmul_base_health risk_values)
  then show ?thesis by (simp only: fl_nine_tenths)
qed

theorem risk_score_bounds_witness:
  "\<exists>s. calculate_risk_score 60 (PStr ''Poor'') (PFloat 3) = Inr s \<and>
         9 / 10 \<le> s \<and> fl (9 / 10) \<le> s \<and> s \<le> 39 / 4 \<and> s \<le> 10"
proof -
  have h: "(18::int) \<le> 60" "(60::int) \<le> 100" "''Poor'' \<in> {''Good'', ''Average'', ''Poor''}"
    "(0::rat) < 3" "(3::rat) \<le> 1000"
    by simp_all
  show ?thesis using risk_score_bounds [OF h] .
qed

text \<open>Both bounds are reached.\<close>

lemma risk_score_extremes:
  "calculate_risk_score 20 (PStr ''Good'') (PFloat 20) = Inr (fl (9 / 10))"
  "calculate_risk_score 60 (PStr ''Poor'') (PFloat 3) = Inr (39 / 4)"
  by code_simp+

subsection \<open>The premium estimate\<close>

lemma fl_exact_literals: "fl 1 = 1" "fl 2 = 2" "fl (1 / 2) = 1 / 2" "fl (5 / 2) = 5 / 2"
  by code_simp+

lemma premium_factors:
  "base_rate (calculate_premium_estimate age coverage_lakhs policy_type health) =
     fl (spec_base_rate policy_type)"
  "age_factor (calculate_premium_estimate age coverage_lakhs policy_type health) =
     fl (spec_age_factor age)"
  "health_factor (calculate_premium_estimate age coverage_lakhs policy_type health) =
     fl (spec_premium_health_factor health)"
  by (simp_all add: calculate_premium_estimate_def Let_def dict_get_def base_rates_def
      premium_health_multiplier_def spec_base_rate_def spec_age_factor_def
      spec_premium_health_factor_def fl_exact_literals)

lemma premium_formula:
  "estimated_premium (calculate_premium_estimate age coverage_lakhs policy_type health) =
     py_round (fmul (fmul (fmul (fmul (fl (of_int coverage_lakhs))
         (base_rate (calculate_premium_estimate age coverage_lakhs policy_type health)))
         (age_factor (calculate_premium_estimate age coverage_lakhs policy_type health)))
         (health_factor (calculate_premium_estimate age coverage_lakhs policy_type health)))
         1000)"
  by (simp add: calculate_premium_estimate_def Let_def)

text \<open>
  Claim C7. For every age, coverage, policy type and health, the three factors of the
  estimate are the floats of the specification's tables (unknown policy type 0.8,
  unknown health 1.0), and the premium is
  \<^verbatim>\<open>round(coverage_lakhs * base_rate * age_factor * health_factor * 1000)\<close>, evaluated
  from left to right in float arithmetic. The estimate for (30, 10, Term Life, Good) is
  premium 5000 with factors 0.5, 1.0, 1.0, and the estimate for (60, 20, Health, Poor) is
  premium 80000 with factors 0.8, 2.5, 2.0.
\<close>

theorem premium_estimate_formula:
  "calculate_premium_estimate age coverage_lakhs policy_type health =
     \<lparr>estimated_premium =
        py_round (fmul (fmul (fmul (fmul (fl (of_int coverage_lakhs))
          (fl (spec_base_rate policy_type))) (fl (spec_age_factor age)))
          (fl (spec_premium_health_factor health))) 1000),
      base_rate = fl (spec_base_rate policy_type),
      age_factor = fl (spec_age_factor age),
      health_factor = fl (spec_premium_health_factor health)\<rparr>
   \<and> calculate_premium_estimate 30 10 ''Term Life'' ''Good'' =
     \<lparr>estimated_premium = 5000, base_rate = 1 / 2, age_factor = 1, health_factor = 1\<rparr>
   \<and> calculate_premium_estimate 60 20 ''Health'' ''Poor'' =
     \<lparr>estimated_premium = 80000, base_rate = fl (8 / 10), age_factor = 5 / 2,
      health_factor = 2\<rparr>"
proof (intro conjI)
  show "calculate_premium_estimate age coverage_lakhs policy_type health =
     \<lparr>estimated_premium =
        py_round (fmul (fmul (fmul (fmul (fl (of_int coverage_lakhs))
          (fl (spec_base_rate policy_type))) (fl (spec_age_factor age)))
          (fl (spec_premium_health_factor health))) 1000),
      base_rate = fl (spec_base_rate policy_type),
      age_factor = fl (spec_age_factor age),
      health_factor = fl (spec_premium_health_factor health)\<rparr>"
    using premium_formula [of age coverage_lakhs policy_type health]
    by (simp add: estimate.equality premium_factors)
  show "calculate_premium_estimate 30 10 ''Term Life'' ''Good'' =
     \<lparr>estimated_premium = 5000, base_rate = 1 / 2, age_factor = 1, health_factor = 1\<rparr>"
    by code_simp
  show "calculate_premium_estimate 60 20 ''Health'' ''Poor'' =
     \<lparr>estimated_premium = 80000, base_rate = fl (8 / 10), age_factor = 5 / 2,
      health_factor = 2\<rparr>"
    by code_simp
qed

end
